theory Spec2Isabelle
  imports Complex_Main "HOL-Library.Word"
begin

unbundle bit_operations_syntax

section \<open>Values\<close>

text \<open>
  Python's \<open>Decimal\<close> computes exactly on finite decimals; they are embedded as rationals.
  The values are those the program computes and hands to \<open>save\<close>; what a column of
  type \<open>DecimalField(decimal_places=2)\<close> does to a value with more places when it is
  stored belongs to the database layer and is not part of the embedding.
  A date is a day number, a point in time a number of seconds; \<open>timezone.now().date()\<close>
  is the day a point in time falls on, and \<open>timedelta(days=365)\<close> adds 365 to a day number.
\<close>

type_synonym decimal = rat
type_synonym date = int
type_synonym datetime = int

definition date_of :: "datetime \<Rightarrow> date" where
  "date_of t = t div 86400"

subsection \<open>UUIDs and their renderings\<close>

text \<open>
  \<open>uuid.uuid4()\<close> is a 128-bit number. \<open>.hex\<close> is its 32 lower-case hexadecimal digits,
  most significant first; \<open>str()\<close> groups the same digits 8-4-4-4-12 with hyphens.
  \<open>.upper()\<close> is taken on ASCII letters.
\<close>

type_synonym uuid = "128 word"

definition hex_digit :: "nat \<Rightarrow> char" where
  "hex_digit n = ''0123456789abcdef'' ! n"

definition uuid_hex :: "uuid \<Rightarrow> string" where
  "uuid_hex u = map (\<lambda>i. hex_digit (unat (drop_bit (4 * (31 - i)) u AND 15))) [0..<32]"

definition uuid_str :: "uuid \<Rightarrow> string" where
  "uuid_str u =
     (let h = uuid_hex u
      in take 8 h @ ''-'' @ take 4 (drop 8 h) @ ''-'' @ take 4 (drop 12 h) @ ''-'' @
         take 4 (drop 16 h) @ ''-'' @ drop 20 h)"

definition upper_char :: "char \<Rightarrow> char" where
  "upper_char c =
     (if 97 \<le> (of_char c :: nat) \<and> (of_char c :: nat) \<le> 122
      then char_of ((of_char c :: nat) - 32) else c)"

definition str_upper :: "string \<Rightarrow> string" where
  "str_upper s = map upper_char s"

text \<open>The alphabets the identifier formats speak of.\<close>

definition hex_upper :: "char set" where
  "hex_upper = set ''0123456789ABCDEF''"

definition upper_alnum :: "char set" where
  "upper_alnum = set ''ABCDEFGHIJKLMNOPQRSTUVWXYZ0123456789''"

definition letters_G_to_Z :: "char set" where
  "letters_G_to_Z = set ''GHIJKLMNOPQRSTUVWXYZ''"

section \<open>The stored data\<close>

text \<open>
  \<open>ShrimpProduct\<close> (shrimp_panel/models.py) and \<open>ProductPackage\<close> (export_panel/models.py).
  The automatic time stamps \<open>created_at\<close> and \<open>updated_at\<close> are left out: no modelled
  code reads them. An empty \<open>batch_number\<close>, \<open>support_code\<close> or \<open>qr_code\<close> is the
  falsy value the \<open>save\<close> methods test for; a date attribute may be \<open>None\<close>.
\<close>

record product =
  company :: nat
  product_name :: string
  weight :: decimal
  shrimp_type :: string
  price :: decimal
  support_code :: string

record package =
  shrimp_product :: nat
  farming_company :: nat
  exporting_company :: nat
  package_weight :: decimal
  quantity :: int
  production_date :: "date option"
  expiration_date :: "date option"
  batch_number :: string
  qr_code :: string

text \<open>
  The database: one list per table, a row's primary key being its position. Rows are
  appended by INSERT and overwritten by UPDATE; deleting rows is not modelled. Of a
  company only the name is kept.
\<close>

record db =
  farming_companies :: "string list"
  exporting_companies :: "string list"
  products :: "product list"
  packages :: "package list"

datatype exn = DoesNotExist | IntegrityError | DatabaseError | RenderError | StorageError

definition get_row :: "'a list \<Rightarrow> nat \<Rightarrow> 'a option" where
  "get_row rows pk = (if pk < length rows then Some (rows ! pk) else None)"

text \<open>
  What a request brings from outside the program: the clock readings at the three places
  that read the clock, the two random UUIDs, the QR library (\<open>make_image\<close>: the PNG bytes
  of a payload, or \<open>None\<close> when rendering raises) and the file storage (\<open>storage_save\<close>:
  the name a file was stored under, or \<open>None\<close> when storing raises).
\<close>

record qr_data =
  q_batch_number :: string
  q_product_name :: string
  q_shrimp_type :: string
  q_farming_company :: string
  q_exporting_company :: string
  q_package_weight :: decimal
  q_quantity :: int
  q_total_weight :: decimal
  q_production_date :: "date option"
  q_expiration_date :: "date option"
  q_support_code :: string

record env =
  now_production :: datetime
  now_expiration :: datetime
  now_save :: datetime
  batch_uuid :: uuid
  code_uuid :: uuid
  make_image :: "qr_data \<Rightarrow> string option"
  storage_save :: "string \<Rightarrow> string \<Rightarrow> string option"

text \<open>
  A database operation yields the exception it raised or its value, and the database it
  leaves. \<open>transaction.atomic()\<close> restores the database when its block raises.
\<close>

definition atomic :: "(db \<Rightarrow> (exn + 'a) \<times> db) \<Rightarrow> db \<Rightarrow> (exn + 'a) \<times> db" where
  "atomic block d =
     (case block d of
        (Inl e, d') \<Rightarrow> (Inl e, d)
      | (Inr x, d') \<Rightarrow> (Inr x, d'))"

section \<open>shrimp\_panel: products\<close>

text \<open>
  \<open>ShrimpProduct.save\<close>: a missing support code becomes the first 8 characters of
  \<open>str(uuid.uuid4())\<close> in upper case, then the row is written. The object carries its
  primary key, or none before its first save. The column is \<open>unique=True\<close>: an INSERT
  of a code another row holds raises \<open>IntegrityError\<close>. An UPDATE writes the object over
  its row.
\<close>

definition new_support_code :: "uuid \<Rightarrow> string" where
  "new_support_code u = str_upper (take 8 (uuid_str u))"

definition ShrimpProduct_save ::
  "env \<Rightarrow> db \<Rightarrow> nat option \<Rightarrow> product \<Rightarrow> (exn + nat \<times> product) \<times> db" where
  "ShrimpProduct_save ev d pk sp =
     (let sp1 = (if support_code sp = []
                 then sp\<lparr>support_code := new_support_code (code_uuid ev)\<rparr>
                 else sp)
      in case pk of
           None \<Rightarrow>
             if support_code sp1 \<in> set (map support_code (products d))
             then (Inl IntegrityError, d)
             else (Inr (length (products d), sp1), d\<lparr>products := products d @ [sp1]\<rparr>)
         | Some i \<Rightarrow>
             if i < length (products d)
             then (Inr (i, sp1), d\<lparr>products := (products d)[i := sp1]\<rparr>)
             else (Inl DatabaseError, d))"




section \<open>export\_panel: packages\<close>

definition qr_code_path :: "package \<Rightarrow> string \<Rightarrow> string" where
  "qr_code_path inst filename = ''qrcodes/'' @ batch_number inst @ ''_'' @ filename"

definition default_expiration_date :: "datetime \<Rightarrow> date" where
  "default_expiration_date now = date_of now + 365"

text \<open>
  The constructor \<open>ProductPackage(...)\<close>: a date that is not passed takes its field
  default (\<open>timezone.now\<close> for the production date, \<open>default_expiration_date\<close> for the
  expiration date), each evaluated at the clock reading of its own call; a date that is
  passed, \<open>None\<close> included, is kept. Batch number and QR file start empty.
\<close>

datatype 'a kwarg = Omitted | Given 'a

definition ProductPackage_init ::
  "env \<Rightarrow> nat \<Rightarrow> nat \<Rightarrow> nat \<Rightarrow> decimal \<Rightarrow> int \<Rightarrow>
   date option kwarg \<Rightarrow> date option kwarg \<Rightarrow> package" where
  "ProductPackage_init ev sp fc ec w q pd ed =
     \<lparr>shrimp_product = sp, farming_company = fc, exporting_company = ec,
      package_weight = w, quantity = q,
      production_date = (case pd of Omitted \<Rightarrow> Some (date_of (now_production ev)) | Given v \<Rightarrow> v),
      expiration_date =
        (case ed of Omitted \<Rightarrow> Some (default_expiration_date (now_expiration ev)) | Given v \<Rightarrow> v),
      batch_number = [], qr_code = []\<rparr>"

text \<open>
  \<open>super().save()\<close> of a package: INSERT for an object without primary key, refused with
  \<open>IntegrityError\<close> when the batch number is held by a row (\<open>unique=True\<close>); UPDATE of
  its row otherwise.
\<close>

definition Model_save ::
  "db \<Rightarrow> nat option \<Rightarrow> package \<Rightarrow> (exn + nat) \<times> db" where
  "Model_save d pk p =
     (case pk of
        None \<Rightarrow>
          if batch_number p \<in> set (map batch_number (packages d))
          then (Inl IntegrityError, d)
          else (Inr (length (packages d)), d\<lparr>packages := packages d @ [p]\<rparr>)
      | Some i \<Rightarrow>
          if i < length (packages d)
          then (Inr i, d\<lparr>packages := (packages d)[i := p]\<rparr>)
          else (Inl DatabaseError, d))"

text \<open>
  \<open>ProductPackage.generate_qr_code\<close>: the payload is built from the package and the rows
  it refers to, rendered, stored under \<open>qr_code_<batch>.png\<close> below \<open>qr_code_path\<close>, and
  \<open>save(update_fields=['qr_code'])\<close> writes that one column of the package's row.
\<close>

definition build_qr_data :: "db \<Rightarrow> package \<Rightarrow> exn + qr_data" where
  "build_qr_data d p =
     (case get_row (products d) (shrimp_product p) of
        None \<Rightarrow> Inl DoesNotExist
      | Some sp \<Rightarrow>
          (case get_row (farming_companies d) (farming_company p) of
             None \<Rightarrow> Inl DoesNotExist
           | Some fc \<Rightarrow>
               (case get_row (exporting_companies d) (exporting_company p) of
                  None \<Rightarrow> Inl DoesNotExist
                | Some ec \<Rightarrow>
                    Inr \<lparr>q_batch_number = batch_number p,
                         q_product_name = product_name sp,
                         q_shrimp_type = shrimp_type sp,
                         q_farming_company = fc,
                         q_exporting_company = ec,
                         q_package_weight = package_weight p,
                         q_quantity = quantity p,
                         q_total_weight = package_weight p * of_int (quantity p),
                         q_production_date = production_date p,
                         q_expiration_date = expiration_date p,
                         q_support_code = support_code sp\<rparr>)))"

definition generate_qr_code ::
  "env \<Rightarrow> db \<Rightarrow> nat \<Rightarrow> package \<Rightarrow> (exn + nat \<times> package) \<times> db" where
  "generate_qr_code ev d pk p =
     (case build_qr_data d p of
        Inl e \<Rightarrow> (Inl e, d)
      | Inr data \<Rightarrow>
          (case make_image ev data of
             None \<Rightarrow> (Inl RenderError, d)
           | Some png \<Rightarrow>
               (case storage_save ev
                       (qr_code_path p (''qr_code_'' @ batch_number p @ ''.png'')) png of
                  None \<Rightarrow> (Inl StorageError, d)
                | Some name \<Rightarrow>
                    if pk < length (packages d)
                    then (Inr (pk, p\<lparr>qr_code := name\<rparr>),
                          d\<lparr>packages := (packages d)[pk := (packages d ! pk)\<lparr>qr_code := name\<rparr>]\<rparr>)
                    else (Inl DatabaseError, d))))"

text \<open>
  \<open>ProductPackage.save\<close>: fill in what is missing (batch number from a fresh UUID,
  production date from the clock, expiration date from the production date), write the
  row, then generate the QR file when the package has none.
\<close>

definition new_batch_number :: "uuid \<Rightarrow> string" where
  "new_batch_number u = ''BATCH-'' @ str_upper (take 10 (uuid_hex u))"

definition ProductPackage_save ::
  "env \<Rightarrow> db \<Rightarrow> nat option \<Rightarrow> package \<Rightarrow> (exn + nat \<times> package) \<times> db" where
  "ProductPackage_save ev d pk p =
     (let p1 = (if batch_number p = []
                then p\<lparr>batch_number := new_batch_number (batch_uuid ev)\<rparr> else p);
          p2 = (case production_date p1 of
                  None \<Rightarrow> p1\<lparr>production_date := Some (date_of (now_save ev))\<rparr>
                | Some pd \<Rightarrow> p1);
          p3 = (case expiration_date p2 of
                  None \<Rightarrow> p2\<lparr>expiration_date := map_option (\<lambda>pd. pd + 365) (production_date p2)\<rparr>
                | Some ed \<Rightarrow> p2)
      in case Model_save d pk p3 of
           (Inl e, d') \<Rightarrow> (Inl e, d')
         | (Inr i, d') \<Rightarrow>
             if qr_code p3 = [] then generate_qr_code ev d' i p3 else (Inr (i, p3), d'))"

text \<open>The object after the three fill-in steps of \<open>save\<close>, as a function of its own.\<close>

definition fill_missing :: "env \<Rightarrow> package \<Rightarrow> package" where
  "fill_missing ev p =
     (let p1 = (if batch_number p = []
                then p\<lparr>batch_number := new_batch_number (batch_uuid ev)\<rparr> else p);
          p2 = (case production_date p1 of
                  None \<Rightarrow> p1\<lparr>production_date := Some (date_of (now_save ev))\<rparr>
                | Some pd \<Rightarrow> p1)
      in (case expiration_date p2 of
            None \<Rightarrow> p2\<lparr>expiration_date := map_option (\<lambda>pd. pd + 365) (production_date p2)\<rparr>
          | Some ed \<Rightarrow> p2))"

text \<open>\<open>ProductPackage.objects.create(...)\<close>: construct, then save as a new row.\<close>

definition ProductPackage_create ::
  "env \<Rightarrow> db \<Rightarrow> nat \<Rightarrow> nat \<Rightarrow> nat \<Rightarrow> decimal \<Rightarrow> int \<Rightarrow>
   date option kwarg \<Rightarrow> date option kwarg \<Rightarrow> (exn + nat \<times> package) \<times> db" where
  "ProductPackage_create ev d sp fc ec w q pd ed =
     ProductPackage_save ev d None (ProductPackage_init ev sp fc ec w q pd ed)"

text \<open>
  The admin action \<open>generate_qr_codes\<close> for one selected row: the package is read from
  the table and \<open>generate_qr_code\<close> is called on it.
\<close>

definition regenerate_qr_code :: "env \<Rightarrow> db \<Rightarrow> nat \<Rightarrow> (exn + nat \<times> package) \<times> db" where
  "regenerate_qr_code ev d pk =
     (case get_row (packages d) pk of
        None \<Rightarrow> (Inl DoesNotExist, d)
      | Some p \<Rightarrow> generate_qr_code ev d pk p)"

subsection \<open>CreatePackageView.post\<close>

text \<open>
  The session names the company and its type; the form carries the posted product key,
  unit weight and count, already parsed (an absent weight or count is read as 0). Keys
  are row positions here, Django's start at 1: the truth test \<open>if company_id\<close> of the
  source asks whether the session has a key, which is \<open>Some\<close> here.
\<close>

record session =
  s_company_id :: "nat option"
  s_company_type :: string

record create_form =
  c_shrimp_product :: "nat option"
  c_package_weight :: "decimal option"
  c_package_count :: "int option"

datatype outcome =
    Redirect_login
  | No_product_selected
  | InvalidQuantity
  | InsufficientStock decimal
  | Product_not_found
  | Unexpected_error exn
  | Created package decimal decimal decimal

definition get_company_from_session :: "db \<Rightarrow> session \<Rightarrow> nat option" where
  "get_company_from_session d s =
     (case s_company_id s of
        None \<Rightarrow> None
      | Some i \<Rightarrow>
          if s_company_type s = ''export''
          then (if i < length (exporting_companies d) then Some i else None)
          else None)"

text \<open>
  The first half of \<open>post\<close>, up to the stock check: it reads the database once
  (\<open>ShrimpProduct.objects.get\<close>) and keeps the product object it read.
\<close>

record loaded =
  l_company :: nat
  l_product_id :: nat
  l_product :: product
  l_package_weight :: decimal
  l_package_count :: int
  l_total :: decimal

definition post_check :: "db \<Rightarrow> session \<Rightarrow> create_form \<Rightarrow> outcome + loaded" where
  "post_check d s f =
     (case get_company_from_session d s of
        None \<Rightarrow> Inl Redirect_login
      | Some c \<Rightarrow>
          (case c_shrimp_product f of
             None \<Rightarrow> Inl No_product_selected
           | Some shrimp_product_id \<Rightarrow>
               (let package_weight = (case c_package_weight f of None \<Rightarrow> 0 | Some w \<Rightarrow> w);
                    package_count = (case c_package_count f of None \<Rightarrow> 0 | Some n \<Rightarrow> n)
                in if package_weight \<le> 0 \<or> package_count \<le> 0 then Inl InvalidQuantity
                   else
                     (case get_row (products d) shrimp_product_id of
                        None \<Rightarrow> Inl Product_not_found
                      | Some sp \<Rightarrow>
                          (let total_weight_needed = package_weight * of_int package_count
                           in if total_weight_needed > weight sp
                              then Inl (InsufficientStock (weight sp))
                              else Inr \<lparr>l_company = c, l_product_id = shrimp_product_id,
                                        l_product = sp, l_package_weight = package_weight,
                                        l_package_count = package_count,
                                        l_total = total_weight_needed\<rparr>)))))"

text \<open>
  The second half: inside \<open>transaction.atomic()\<close> the package is created and the weight
  of the product object read earlier is reduced and saved. An exception leaves the block
  and is answered by the handlers after the \<open>try\<close>: \<open>DoesNotExist\<close> by its own message,
  any other by an error.
\<close>

definition handle_exn :: "exn \<Rightarrow> outcome" where
  "handle_exn e = (if e = DoesNotExist then Product_not_found else Unexpected_error e)"

definition post_commit :: "env \<Rightarrow> db \<Rightarrow> loaded \<Rightarrow> outcome \<times> db" where
  "post_commit ev d l =
     (case atomic
             (\<lambda>d0. case ProductPackage_create ev d0 (l_product_id l) (company (l_product l))
                            (l_company l) (l_package_weight l) (l_package_count l)
                            (Given (Some (date_of (now_production ev))))
                            (Given (Some (date_of (now_expiration ev) + 365))) of
                      (Inl e, d1) \<Rightarrow> (Inl e, d1)
                    | (Inr (pk, pkg), d1) \<Rightarrow>
                        (case ShrimpProduct_save ev d1 (Some (l_product_id l))
                                ((l_product l)\<lparr>weight := weight (l_product l) - l_total l\<rparr>) of
                           (Inl e, d2) \<Rightarrow> (Inl e, d2)
                         | (Inr (i, sp'), d2) \<Rightarrow> (Inr (pkg, sp'), d2))) d of
        (Inl e, d') \<Rightarrow> (handle_exn e, d')
      | (Inr (pkg, sp'), d') \<Rightarrow>
          (Created pkg (l_total l) (weight (l_product l)) (weight sp'), d'))"



definition CreatePackageView_post ::
  "env \<Rightarrow> db \<Rightarrow> session \<Rightarrow> create_form \<Rightarrow> outcome \<times> db" where
  "CreatePackageView_post ev d s f =
     (case post_check d s f of
        Inl out \<Rightarrow> (out, d)
      | Inr l \<Rightarrow> post_commit ev d l)"

subsection \<open>Runs of requests\<close>

text \<open>
  A request is what one call of \<open>CreatePackageView.post\<close> receives. \<open>create_all\<close> serves
  requests one after the other, each to its end, and yields the final database when
  every one of them created its package.
\<close>

record request =
  r_env :: env
  r_session :: session
  r_form :: create_form

fun create_all :: "db \<Rightarrow> request list \<Rightarrow> db option" where
  "create_all d [] = Some d"
| "create_all d (r # rs) =
     (case CreatePackageView_post (r_env r) d (r_session r) (r_form r) of
        (Created pkg t w0 w1, d') \<Rightarrow> create_all d' rs
      | (out, d') \<Rightarrow> None)"

text \<open>
  Requests served at the same time: each worker runs \<open>post\<close> in its two database
  accesses, the read with the stock check and then the transaction, and a schedule names
  the worker that takes the next access. The transaction is one step of its own.
\<close>

datatype worker = Pending request | Checked env loaded | Finished outcome

definition step :: "db \<times> worker list \<Rightarrow> nat \<Rightarrow> db \<times> worker list" where
  "step cfg i =
     (case cfg of (d, ws) \<Rightarrow>
        (case get_row ws i of
           None \<Rightarrow> (d, ws)
         | Some (Pending r) \<Rightarrow>
             (case post_check d (r_session r) (r_form r) of
                Inl out \<Rightarrow> (d, ws[i := Finished out])
              | Inr l \<Rightarrow> (d, ws[i := Checked (r_env r) l]))
         | Some (Checked ev l) \<Rightarrow>
             (case post_commit ev d l of (out, d') \<Rightarrow> (d', ws[i := Finished out]))
         | Some (Finished out) \<Rightarrow> (d, ws)))"

definition run_schedule :: "db \<times> worker list \<Rightarrow> nat list \<Rightarrow> db \<times> worker list" where
  "run_schedule cfg sched = foldl step cfg sched"

fun created_total :: "worker \<Rightarrow> decimal" where
  "created_total (Finished (Created pkg t w0 w1)) = t"
| "created_total w = 0"

fun is_created :: "outcome \<Rightarrow> bool" where
  "is_created (Created pkg t w0 w1) = True"
| "is_created out = False"

subsection \<open>The operations that write\<close>



section \<open>Properties of stored data\<close>

definition batch_format :: "string \<Rightarrow> bool" where
  "batch_format b = (length b = 16 \<and> take 6 b = ''BATCH-'' \<and> set (drop 6 b) \<subseteq> upper_alnum)"

definition batches_ok :: "db \<Rightarrow> bool" where
  "batches_ok d =
     (distinct (map batch_number (packages d)) \<and>
      list_all batch_format (map batch_number (packages d)))"


definition total_weight :: "package \<Rightarrow> decimal" where
  "total_weight p = package_weight p * of_int (quantity p)"

section \<open>Sample data\<close>

text \<open>
  One farming company with one product of 100 kg, one exporting company that is logged
  in, a QR library and a storage that work, and the all-zero UUID.
\<close>

definition product0 :: product where
  "product0 = \<lparr>company = 0, product_name = ''Vannamei 30/40'', weight = 100,
               shrimp_type = ''Vannamei'', price = 12, support_code = ''1A2B3C4D''\<rparr>"

definition db0 :: db where
  "db0 = \<lparr>farming_companies = [''Farm''], exporting_companies = [''Exporter''],
          products = [product0], packages = []\<rparr>"

definition env0 :: env where
  "env0 = \<lparr>now_production = 0, now_expiration = 0, now_save = 0, batch_uuid = 0, code_uuid = 0,
           make_image = (\<lambda>data. Some ''png''), storage_save = (\<lambda>name content. Some name)\<rparr>"

definition session0 :: session where
  "session0 = \<lparr>s_company_id = Some 0, s_company_type = ''export''\<rparr>"

definition form :: "decimal \<Rightarrow> int \<Rightarrow> create_form" where
  "form w n = \<lparr>c_shrimp_product = Some 0, c_package_weight = Some w, c_package_count = Some n\<rparr>"

text \<open>A package that already carries the batch number the all-zero UUID gives.\<close>

definition package0 :: package where
  "package0 = \<lparr>shrimp_product = 0, farming_company = 0, exporting_company = 0,
               package_weight = 1, quantity = 1, production_date = Some 0,
               expiration_date = Some 365, batch_number = ''BATCH-0000000000'',
               qr_code = ''qrcodes/BATCH-0000000000_qr_code_BATCH-0000000000.png''\<rparr>"

text \<open>Two requests against the product: 10 units of 5 kg, then 4 units of 2.5 kg.\<close>

definition request0 :: "decimal \<Rightarrow> int \<Rightarrow> uuid \<Rightarrow> request" where
  "request0 w n u = \<lparr>r_env = env0\<lparr>batch_uuid := u\<rparr>, r_session = session0, r_form = form w n\<rparr>"

definition requests0 :: "request list" where
  "requests0 = [request0 5 10 0, request0 (5 / 2) 4 0x10000000000000000000000]"

text \<open>
  Two exporters asking for 60 kg each of the 100 kg product at the same time.
\<close>

fun succeeded :: "worker \<Rightarrow> bool" where
  "succeeded (Finished out) = is_created out"
| "succeeded w = False"

fun result_of :: "worker \<Rightarrow> outcome option" where
  "result_of (Finished out) = Some out"
| "result_of w = None"

definition workers0 :: "worker list" where
  "workers0 = [Pending (request0 60 1 0), Pending (request0 60 1 0x10000000000000000000000)]"


definition env_no_qr :: env where
  "env_no_qr = env0\<lparr>make_image := (\<lambda>data. None)\<rparr>"

text \<open>
  A product about to be saved for the first time, and a database whose only product
  holds the support code, and whose only package the batch number, that the all-zero
  UUID gives.
\<close>

definition new_product :: product where
  "new_product = \<lparr>company = 0, product_name = ''Monodon 16/20'', weight = 250,
                  shrimp_type = ''Monodon'', price = 20, support_code = []\<rparr>"

definition db_taken :: db where
  "db_taken = db0\<lparr>products := [product0\<lparr>support_code := ''00000000''\<rparr>], packages := [package0]\<rparr>"

text \<open>
  Clocks: one that passes midnight between the two default evaluations of a constructor
  call (23:59:59 on day 0, then 00:00:00 on day 1), and one that stands on day 100.
  \<open>created_package\<close> reads the package out of the result of a save.
\<close>

definition env_midnight :: env where
  "env_midnight = env0\<lparr>now_production := 86399, now_expiration := 86400\<rparr>"

definition env_later :: env where
  "env_later = env0\<lparr>now_production := 8640000, now_expiration := 8640000, now_save := 8640000\<rparr>"

definition created_package :: "(exn + nat \<times> package) \<times> db \<Rightarrow> package option" where
  "created_package r = (case fst r of Inl e \<Rightarrow> None | Inr (i, pkg) \<Rightarrow> Some pkg)"

text \<open>An environment whose two UUIDs have letters among their leading digits.\<close>

definition env_hex :: env where
  "env_hex = env0\<lparr>batch_uuid := 0xabcdef0123456789abcdef0123456789,
                  code_uuid := 0x9f8e7d6c5b4a39281706f5e4d3c2b1a0\<rparr>"




section \<open>Generated identifiers\<close>

lemma nibble_lt: "unat ((w :: 128 word) AND 15) < 16"
proof -
  have "(15 :: 128 word) = mask 4" by (simp add: mask_eq_exp_minus_1)
  then have "w AND 15 = take_bit 4 w" by (simp add: take_bit_eq_mask)
  then have "unat (w AND 15) = take_bit 4 (unat w)" by (simp add: unsigned_take_bit_eq)
  also have "\<dots> < 2 ^ 4" by (rule take_bit_nat_less_exp)
  finally show ?thesis by simp
qed

lemma hex_digit_upper: "n < 16 \<Longrightarrow> upper_char (hex_digit n) \<in> hex_upper"
proof -
  assume "n < 16"
  then have "n \<in> set [0..<16]" by simp
  moreover have "\<forall>k \<in> set [0..<16]. upper_char (hex_digit k) \<in> hex_upper"
    by code_simp
  ultimately show ?thesis by blast
qed

lemma length_uuid_hex: "length (uuid_hex u) = 32"
  by (simp add: uuid_hex_def)

lemma upper_uuid_hex: "set (str_upper (take n (uuid_hex u))) \<subseteq> hex_upper"
proof -
  have "set (str_upper (uuid_hex u)) \<subseteq> hex_upper"
    by (auto simp: str_upper_def uuid_hex_def intro!: hex_digit_upper nibble_lt)
  moreover have "set (str_upper (take n (uuid_hex u))) \<subseteq> set (str_upper (uuid_hex u))"
    by (auto simp: str_upper_def dest: in_set_takeD)
  ultimately show ?thesis by blast
qed

lemma take8_uuid_str: "take 8 (uuid_str u) = take 8 (uuid_hex u)"
  by (simp add: uuid_str_def Let_def length_uuid_hex)

lemma hex_upper_alnum: "hex_upper \<subseteq> upper_alnum"
  by (simp add: hex_upper_def upper_alnum_def)

lemma hex_upper_no_G_to_Z: "hex_upper \<inter> letters_G_to_Z = {}"
  by (simp add: hex_upper_def letters_G_to_Z_def)

lemma length_upper_take: "n \<le> 32 \<Longrightarrow> length (str_upper (take n (uuid_hex u))) = n"
  by (simp add: str_upper_def length_uuid_hex)



section \<open>What the transaction of the view does\<close>

lemma generate_qr_code_cases:
  "generate_qr_code ev d pk p = (r, d') \<Longrightarrow>
     (\<exists>e. r = Inl e \<and> d' = d) \<or>
     (\<exists>name. r = Inr (pk, p\<lparr>qr_code := name\<rparr>) \<and> pk < length (packages d) \<and>
        d' = d\<lparr>packages := (packages d)[pk := (packages d ! pk)\<lparr>qr_code := name\<rparr>]\<rparr>)"
  by (auto simp: generate_qr_code_def split: sum.splits option.splits if_splits)









lemma new_batch_number_zero: "new_batch_number 0 = ''BATCH-0000000000''"
  by code_simp

lemmas sample_defs = product0_def db0_def env0_def session0_def form_def package0_def

lemmas view_defs = CreatePackageView_post_def post_check_def post_commit_def atomic_def
  ProductPackage_create_def ProductPackage_save_def ProductPackage_init_def Model_save_def
  generate_qr_code_def build_qr_data_def ShrimpProduct_save_def get_row_def
  get_company_from_session_def handle_exn_def Let_def

section \<open>The contract of package creation\<close>




section \<open>Conservation of weight\<close>





lemma requests0_weights: "map weight (products (the (create_all db0 requests0))) = [40]"
  by code_simp

lemma requests0_batches:
  "map batch_number (packages (the (create_all db0 requests0))) =
     [''BATCH-0000000000'', ''BATCH-0000000001'']"
  by code_simp


section \<open>Requests at the same time\<close>

lemma step_twice_is_post:
  "run_schedule (d, [Pending r]) [0, 0] =
     (snd (CreatePackageView_post (r_env r) d (r_session r) (r_form r)),
      [Finished (fst (CreatePackageView_post (r_env r) d (r_session r) (r_form r)))])"
  by (auto simp: run_schedule_def step_def get_row_def CreatePackageView_post_def
      split: sum.splits prod.splits)

lemma serial_schedule:
  "map succeeded (snd (run_schedule (db0, workers0) [0, 0, 1, 1])) = [True, False] \<and>
   result_of (snd (run_schedule (db0, workers0) [0, 0, 1, 1]) ! 1) = Some (InsufficientStock 40)"
  by code_simp

text \<open>
  C3 (the code at the failing input). Two requests of 60 kg each against 100 kg, both
  reading the product before either writes: both pass the stock check against 100, both
  create their package, 120 kg are packaged and the stored weight ends at 40, while
  floor(100 / 60) = 1. Served one after the other, the second is refused
  (\<open>serial_schedule\<close>).
\<close>

theorem oversell_under_interleaving:
  "map succeeded (snd (run_schedule (db0, workers0) [0, 1, 0, 1])) = [True, True] \<and>
   map created_total (snd (run_schedule (db0, workers0) [0, 1, 0, 1])) = [60, 60] \<and>
   map total_weight (packages (fst (run_schedule (db0, workers0) [0, 1, 0, 1]))) = [60, 60] \<and>
   map weight (products (fst (run_schedule (db0, workers0) [0, 1, 0, 1]))) = [40] \<and>
   map weight (products db0) = [100] \<and> \<lfloor>(100 :: decimal) / 60\<rfloor> = 1"
  by code_simp

section \<open>Failure of the QR step\<close>





text \<open>
  Outside a transaction, \<open>ProductPackage.objects.create\<close> with a failing QR library
  leaves the row it inserted, without QR file.
\<close>

lemma model_layer_keeps_row:
  "ProductPackage_create env_no_qr db0 0 0 0 5 10 Omitted Omitted =
     (Inl RenderError, db0\<lparr>packages := [\<lparr>shrimp_product = 0, farming_company = 0,
        exporting_company = 0, package_weight = 5, quantity = 10, production_date = Some 0,
        expiration_date = Some 365, batch_number = ''BATCH-0000000000'', qr_code = []\<rparr>]\<rparr>)"
  by (simp add: view_defs sample_defs env_no_qr_def new_batch_number_zero date_of_def
     default_expiration_date_def)

section \<open>Collisions of generated identifiers\<close>

lemma new_support_code_zero: "new_support_code 0 = ''00000000''"
  by code_simp

text \<open>
  C5 (as amended). A generated support code or batch number is not compared with the
  stored ones before it is accepted, and it is never generated a second time. The first
  save of a product INSERTs the generated code: when a stored product holds it, the save
  raises IntegrityError to its caller and the database is as before; otherwise the row is
  added with that code. The first save of a package whose generated batch number is held
  by a stored package raises IntegrityError likewise.
\<close>

theorem collision_surfaces:
  "(support_code sp = [] \<longrightarrow>
      ShrimpProduct_save ev d None sp =
        (if new_support_code (code_uuid ev) \<in> set (map support_code (products d))
         then (Inl IntegrityError, d)
         else (Inr (length (products d), sp\<lparr>support_code := new_support_code (code_uuid ev)\<rparr>),
               d\<lparr>products := products d @ [sp\<lparr>support_code := new_support_code (code_uuid ev)\<rparr>]\<rparr>))) \<and>
   (batch_number p = [] \<and>
    new_batch_number (batch_uuid ev) \<in> set (map batch_number (packages d)) \<longrightarrow>
      ProductPackage_save ev d None p = (Inl IntegrityError, d))"
  by (simp add: ShrimpProduct_save_def ProductPackage_save_def Model_save_def Let_def
      split: option.splits)

theorem collision_surfaces_witness:
  "ShrimpProduct_save env0 db0 None new_product =
     (Inr (1, new_product\<lparr>support_code := ''00000000''\<rparr>),
      db0\<lparr>products := [product0, new_product\<lparr>support_code := ''00000000''\<rparr>]\<rparr>) \<and>
   ProductPackage_save env0 db_taken None (ProductPackage_init env0 0 0 0 5 10 Omitted Omitted) =
     (Inl IntegrityError, db_taken)"
proof -
  have 1: "support_code new_product = []" by (simp add: new_product_def)
  have 2: "batch_number (ProductPackage_init env0 0 0 0 5 10 Omitted Omitted) = [] \<and>
    new_batch_number (batch_uuid env0) \<in> set (map batch_number (packages db_taken))"
    by (simp add: ProductPackage_init_def db_taken_def db0_def package0_def env0_def
        new_batch_number_zero)
  have 3: "new_support_code (code_uuid env0) = ''00000000''"
    by (simp add: env0_def new_support_code_zero)
  have 4: "products db0 = [product0]" "support_code product0 = ''1A2B3C4D''"
    by (simp_all add: db0_def product0_def)
  from collision_surfaces [of new_product env0 db0 "ProductPackage_init env0 0 0 0 5 10 Omitted Omitted"]
    collision_surfaces [of new_product env0 db_taken "ProductPackage_init env0 0 0 0 5 10 Omitted Omitted"]
    1 2 show ?thesis
    by (simp add: 3 4)
qed

text \<open>
  The claim has a collision handled inside, by generating again. Here the code drawn for
  a new product is the one the stored product holds: the save ends with IntegrityError.
\<close>

theorem support_code_collision_counterexample:
  "support_code new_product = [] \<and>
   map support_code (products db_taken) = [''00000000''] \<and>
   ShrimpProduct_save env0 db_taken None new_product = (Inl IntegrityError, db_taken)"
  by (simp add: ShrimpProduct_save_def Let_def new_product_def db_taken_def db0_def
      product0_def env0_def new_support_code_zero)

section \<open>Default dates\<close>

lemma ProductPackage_save_fill:
  "ProductPackage_save ev d pk p =
     (case Model_save d pk (fill_missing ev p) of
        (Inl e, d') \<Rightarrow> (Inl e, d')
      | (Inr i, d') \<Rightarrow>
          if qr_code (fill_missing ev p) = [] then generate_qr_code ev d' i (fill_missing ev p)
          else (Inr (i, fill_missing ev p), d'))"
  unfolding ProductPackage_save_def fill_missing_def Let_def by (rule refl)

lemma ProductPackage_save_object:
  assumes "ProductPackage_save ev d pk p = (Inr (i, pkg), d')"
  shows "\<exists>name. pkg = (fill_missing ev p)\<lparr>qr_code := name\<rparr>"
proof (cases "Model_save d pk (fill_missing ev p)")
  case (Pair r d1)
  show ?thesis
  proof (cases r)
    case (Inl e)
    with Pair assms show ?thesis by (simp add: ProductPackage_save_fill)
  next
    case (Inr j)
    show ?thesis
    proof (cases "qr_code (fill_missing ev p) = []")
      case True
      with Pair Inr assms have "generate_qr_code ev d1 j (fill_missing ev p) = (Inr (i, pkg), d')"
        by (simp add: ProductPackage_save_fill)
      from generate_qr_code_cases [OF this] show ?thesis by auto
    next
      case False
      with Pair Inr assms have "pkg = fill_missing ev p"
        by (simp add: ProductPackage_save_fill)
      then show ?thesis by (intro exI [of _ "qr_code (fill_missing ev p)"]) simp
    qed
  qed
qed

lemma fill_missing_dates:
  "production_date (fill_missing ev p) =
     (case production_date p of None \<Rightarrow> Some (date_of (now_save ev)) | Some pd \<Rightarrow> Some pd)"
  "expiration_date (fill_missing ev p) =
     (case expiration_date p of
        None \<Rightarrow> map_option (\<lambda>pd. pd + 365) (production_date (fill_missing ev p))
      | Some ed \<Rightarrow> Some ed)"
  by (auto simp: fill_missing_def Let_def split: option.splits)

lemma fill_missing_batch:
  "batch_number (fill_missing ev p) =
     (if batch_number p = [] then new_batch_number (batch_uuid ev) else batch_number p)"
  by (auto simp: fill_missing_def Let_def split: option.splits)

lemma ProductPackage_save_dates:
  assumes "ProductPackage_save ev d pk p = (Inr (i, pkg), d')"
  shows "production_date pkg =
           (case production_date p of None \<Rightarrow> Some (date_of (now_save ev)) | Some pd \<Rightarrow> Some pd) \<and>
         expiration_date pkg =
           (case expiration_date p of
              None \<Rightarrow> map_option (\<lambda>pd. pd + 365) (production_date pkg)
            | Some ed \<Rightarrow> Some ed)"
proof -
  from ProductPackage_save_object [OF assms] obtain name where
    "pkg = (fill_missing ev p)\<lparr>qr_code := name\<rparr>" by blast
  then have "production_date pkg = production_date (fill_missing ev p)"
    "expiration_date pkg = expiration_date (fill_missing ev p)"
    by simp_all
  then show ?thesis
    using fill_missing_dates [of ev p] by (auto split: option.splits)
qed

lemma ProductPackage_save_batch:
  assumes "ProductPackage_save ev d pk p = (Inr (i, pkg), d')"
  shows "batch_number pkg =
     (if batch_number p = [] then new_batch_number (batch_uuid ev) else batch_number p)"
proof -
  from ProductPackage_save_object [OF assms] obtain name where
    "pkg = (fill_missing ev p)\<lparr>qr_code := name\<rparr>" by blast
  then show ?thesis by (simp add: fill_missing_batch)
qed

text \<open>
  C6 (as amended). For a package created with no explicit dates whose two defaults are
  evaluated on the same day, the expiration date is the production date plus 365 days.
  The default of the expiration date is the day on which that default is evaluated plus
  365 days, whatever the production date; only an expiration date that is explicitly
  absent (\<open>None\<close>) when the package is saved is set to the production date plus 365 days.
\<close>

theorem expiration_default:
  assumes "ProductPackage_create ev d sp fc ec w q pd ed = (Inr (i, pkg), d')"
  shows "(pd = Omitted \<and> ed = Omitted \<and>
            date_of (now_production ev) = date_of (now_expiration ev) \<longrightarrow>
            (\<exists>day. production_date pkg = Some day \<and> expiration_date pkg = Some (day + 365))) \<and>
         (ed = Omitted \<longrightarrow> expiration_date pkg = Some (date_of (now_expiration ev) + 365)) \<and>
         (ed = Given None \<longrightarrow>
            expiration_date pkg = map_option (\<lambda>day. day + 365) (production_date pkg))"
  using ProductPackage_save_dates [OF assms [unfolded ProductPackage_create_def]]
  by (auto simp: ProductPackage_init_def default_expiration_date_def split: kwarg.splits)

lemma created_runs:
  "fst (ProductPackage_create env_later db0 0 0 0 5 10 Omitted Omitted) =
     Inr (0, the (created_package (ProductPackage_create env_later db0 0 0 0 5 10 Omitted Omitted)))"
  "fst (ProductPackage_create env_later db0 0 0 0 5 10 (Given (Some 0)) Omitted) =
     Inr (0, the (created_package
       (ProductPackage_create env_later db0 0 0 0 5 10 (Given (Some 0)) Omitted)))"
  "fst (ProductPackage_create env_later db0 0 0 0 5 10 (Given (Some 0)) (Given None)) =
     Inr (0, the (created_package
       (ProductPackage_create env_later db0 0 0 0 5 10 (Given (Some 0)) (Given None))))"
  by code_simp+

lemma created_production:
  "production_date (the (created_package
       (ProductPackage_create env_later db0 0 0 0 5 10 (Given (Some 0)) (Given None)))) = Some 0"
  by code_simp

theorem expiration_default_witness:
  "(\<exists>day. production_date (the (created_package
        (ProductPackage_create env_later db0 0 0 0 5 10 Omitted Omitted))) = Some day \<and>
      expiration_date (the (created_package
        (ProductPackage_create env_later db0 0 0 0 5 10 Omitted Omitted))) = Some (day + 365)) \<and>
   expiration_date (the (created_package
        (ProductPackage_create env_later db0 0 0 0 5 10 (Given (Some 0)) Omitted))) = Some 465 \<and>
   expiration_date (the (created_package
        (ProductPackage_create env_later db0 0 0 0 5 10 (Given (Some 0)) (Given None)))) = Some 365"
proof -
  have run: "fst r = Inr (0, p) \<Longrightarrow> r = (Inr (0, p), snd r)"
    for r :: "(exn + nat \<times> package) \<times> db" and p
    by (simp add: prod_eq_iff)
  have now: "date_of (now_production env_later) = 100" "date_of (now_expiration env_later) = 100"
    by (simp_all add: env_later_def env0_def date_of_def)
  have 1: "\<exists>day. production_date (the (created_package
        (ProductPackage_create env_later db0 0 0 0 5 10 Omitted Omitted))) = Some day \<and>
      expiration_date (the (created_package
        (ProductPackage_create env_later db0 0 0 0 5 10 Omitted Omitted))) = Some (day + 365)"
    by (rule expiration_default [OF run [OF created_runs(1)], THEN conjunct1, rule_format])
       (simp add: now)
  have 2: "expiration_date (the (created_package
        (ProductPackage_create env_later db0 0 0 0 5 10 (Given (Some 0)) Omitted))) = Some 465"
    using expiration_default [OF run [OF created_runs(2)]] by (simp add: now)
  have 3: "expiration_date (the (created_package
        (ProductPackage_create env_later db0 0 0 0 5 10 (Given (Some 0)) (Given None)))) = Some 365"
    using expiration_default [OF run [OF created_runs(3)]] by (simp add: created_production)
  from 1 2 3 show ?thesis by blast
qed

text \<open>
  The claim fails in both its parts: with midnight between the two defaults the package
  is produced on day 0 and expires on day 366, and with an explicit production date of
  day 0 the default evaluated on day 100 gives day 465.
\<close>

theorem expiration_default_counterexample:
  "map_option production_date (created_package
      (ProductPackage_create env_midnight db0 0 0 0 5 10 Omitted Omitted)) = Some (Some 0) \<and>
   map_option expiration_date (created_package
      (ProductPackage_create env_midnight db0 0 0 0 5 10 Omitted Omitted)) = Some (Some 366) \<and>
   map_option production_date (created_package
      (ProductPackage_create env_later db0 0 0 0 5 10 (Given (Some 0)) Omitted)) = Some (Some 0) \<and>
   map_option expiration_date (created_package
      (ProductPackage_create env_later db0 0 0 0 5 10 (Given (Some 0)) Omitted)) = Some (Some 465)"
  by code_simp

section \<open>The alphabet of generated identifiers\<close>

lemma new_support_code_shape:
  "length (new_support_code u) = 8 \<and> set (new_support_code u) \<subseteq> hex_upper"
  using upper_uuid_hex [of 8 u]
  by (simp add: new_support_code_def take8_uuid_str length_upper_take)

lemma new_batch_number_shape:
  "\<exists>r. new_batch_number u = ''BATCH-'' @ r \<and> length r = 10 \<and> set r \<subseteq> hex_upper"
  using upper_uuid_hex [of 10 u]
  by (simp add: new_batch_number_def length_upper_take)

lemma ShrimpProduct_save_code:
  assumes "ShrimpProduct_save ev d pk sp = (Inr (i, sp'), d')"
  shows "support_code sp' = (if support_code sp = [] then new_support_code (code_uuid ev)
                             else support_code sp)"
  using assms by (auto simp: ShrimpProduct_save_def Let_def split: option.splits if_splits)

lemma hex_upper_strict: "hex_upper \<subset> upper_alnum"
proof -
  have "CHR ''G'' \<in> upper_alnum" by (simp add: upper_alnum_def)
  moreover have "CHR ''G'' \<notin> hex_upper" by (simp add: hex_upper_def)
  ultimately show ?thesis using hex_upper_alnum by blast
qed

text \<open>
  C10. The random part of every generated identifier is made of upper-case hexadecimal
  digits only. A support code generated by \<open>ShrimpProduct.save\<close> is the first 8
  characters of the UUID's string in upper case: 8 characters out of 0-9 and A-F, no
  hyphen. A batch number generated by \<open>ProductPackage.save\<close> is BATCH- followed by 10
  characters out of 0-9 and A-F. The letters G to Z occur in neither random part, and the
  hexadecimal alphabet is a proper part of the upper-case alphanumeric one.
\<close>

theorem generated_identifiers_hex:
  "(support_code sp = [] \<and> ShrimpProduct_save ev d pk sp = (Inr (i, sp'), d') \<longrightarrow>
      support_code sp' = str_upper (take 8 (uuid_str (code_uuid ev))) \<and>
      length (support_code sp') = 8 \<and> set (support_code sp') \<subseteq> hex_upper \<and>
      set (support_code sp') \<inter> letters_G_to_Z = {}) \<and>
   (batch_number p = [] \<and> ProductPackage_save ev d pk' p = (Inr (j, pkg), d'') \<longrightarrow>
      (\<exists>r. batch_number pkg = ''BATCH-'' @ r \<and> length r = 10 \<and> set r \<subseteq> hex_upper \<and>
           set r \<inter> letters_G_to_Z = {})) \<and>
   hex_upper \<subset> upper_alnum"
proof (intro conjI impI)
  assume a: "support_code sp = [] \<and> ShrimpProduct_save ev d pk sp = (Inr (i, sp'), d')"
  then have c: "support_code sp' = new_support_code (code_uuid ev)"
    using ShrimpProduct_save_code [of ev d pk sp i sp' d'] by simp
  then show "support_code sp' = str_upper (take 8 (uuid_str (code_uuid ev)))"
    by (simp add: new_support_code_def)
  from c new_support_code_shape [of "code_uuid ev"]
  show l: "length (support_code sp') = 8" and h: "set (support_code sp') \<subseteq> hex_upper"
    by simp_all
  from h hex_upper_no_G_to_Z show "set (support_code sp') \<inter> letters_G_to_Z = {}"
    by blast
next
  assume a: "batch_number p = [] \<and> ProductPackage_save ev d pk' p = (Inr (j, pkg), d'')"
  then have b: "batch_number pkg = new_batch_number (batch_uuid ev)"
    using ProductPackage_save_batch [of ev d pk' p j pkg d''] by simp
  from new_batch_number_shape [of "batch_uuid ev"] obtain r where
    r: "new_batch_number (batch_uuid ev) = ''BATCH-'' @ r" "length r = 10" "set r \<subseteq> hex_upper"
    by blast
  from r(3) hex_upper_no_G_to_Z have "set r \<inter> letters_G_to_Z = {}" by blast
  with b r show "\<exists>r. batch_number pkg = ''BATCH-'' @ r \<and> length r = 10 \<and> set r \<subseteq> hex_upper \<and>
           set r \<inter> letters_G_to_Z = {}"
    by (intro exI [of _ r]) simp
next
  show "hex_upper \<subset> upper_alnum" by (rule hex_upper_strict)
qed

lemma hex_runs:
  "fst (ShrimpProduct_save env_hex db0 None new_product) =
     Inr (1, new_product\<lparr>support_code := ''9F8E7D6C''\<rparr>)"
  "map_option batch_number (created_package
      (ProductPackage_save env_hex db0 None (ProductPackage_init env_hex 0 0 0 5 10 Omitted Omitted)))
     = Some ''BATCH-ABCDEF0123''"
  "fst (ProductPackage_save env_hex db0 None (ProductPackage_init env_hex 0 0 0 5 10 Omitted Omitted))
     = Inr (0, the (created_package
      (ProductPackage_save env_hex db0 None (ProductPackage_init env_hex 0 0 0 5 10 Omitted Omitted))))"
  by code_simp+

theorem generated_identifiers_hex_witness:
  "fst (ShrimpProduct_save env_hex db0 None new_product) =
     Inr (1, new_product\<lparr>support_code := ''9F8E7D6C''\<rparr>) \<and>
   set ''9F8E7D6C'' \<subseteq> hex_upper \<and> set ''9F8E7D6C'' \<inter> letters_G_to_Z = {} \<and>
   map_option batch_number (created_package
      (ProductPackage_save env_hex db0 None (ProductPackage_init env_hex 0 0 0 5 10 Omitted Omitted)))
     = Some ''BATCH-ABCDEF0123'' \<and>
   (\<exists>r. ''BATCH-ABCDEF0123'' = ''BATCH-'' @ r \<and> length r = 10 \<and> set r \<subseteq> hex_upper \<and>
        set r \<inter> letters_G_to_Z = {})"
proof -
  let ?p = "ProductPackage_init env_hex 0 0 0 5 10 Omitted Omitted"
  let ?pkg = "the (created_package (ProductPackage_save env_hex db0 None ?p))"
  have run1: "ShrimpProduct_save env_hex db0 None new_product =
      (Inr (1, new_product\<lparr>support_code := ''9F8E7D6C''\<rparr>),
       snd (ShrimpProduct_save env_hex db0 None new_product))"
    using hex_runs(1) by (simp add: prod_eq_iff)
  have run2: "ProductPackage_save env_hex db0 None ?p =
      (Inr (0, ?pkg), snd (ProductPackage_save env_hex db0 None ?p))"
    using hex_runs(3) by (simp add: prod_eq_iff)
  have e1: "support_code new_product = []" by (simp add: new_product_def)
  have e2: "batch_number ?p = []" by (simp add: ProductPackage_init_def)
  have b: "batch_number ?pkg = ''BATCH-ABCDEF0123''"
    using hex_runs(2) by auto
  note t = generated_identifiers_hex [of new_product env_hex db0 None 1
      "new_product\<lparr>support_code := ''9F8E7D6C''\<rparr>"
      "snd (ShrimpProduct_save env_hex db0 None new_product)" ?p None 0 ?pkg
      "snd (ProductPackage_save env_hex db0 None ?p)"]
  have sc: "support_code (new_product\<lparr>support_code := ''9F8E7D6C''\<rparr>) = ''9F8E7D6C''"
    by simp
  have "set (support_code (new_product\<lparr>support_code := ''9F8E7D6C''\<rparr>)) \<subseteq> hex_upper \<and>
      set (support_code (new_product\<lparr>support_code := ''9F8E7D6C''\<rparr>)) \<inter> letters_G_to_Z = {}"
    using t [THEN conjunct1, rule_format, OF conjI [OF e1 run1]] by blast
  then have 1: "set ''9F8E7D6C'' \<subseteq> hex_upper \<and> set ''9F8E7D6C'' \<inter> letters_G_to_Z = {}"
    by (simp only: sc)
  have 2: "\<exists>r. batch_number ?pkg = ''BATCH-'' @ r \<and> length r = 10 \<and>
      set r \<subseteq> hex_upper \<and> set r \<inter> letters_G_to_Z = {}"
    by (rule t [THEN conjunct2, THEN conjunct1, rule_format, OF conjI [OF e2 run2]])
  from 2 have 3: "\<exists>r. ''BATCH-ABCDEF0123'' = ''BATCH-'' @ r \<and> length r = 10 \<and>
      set r \<subseteq> hex_upper \<and> set r \<inter> letters_G_to_Z = {}"
    by (simp only: b)
  from 1 3 hex_runs(1) hex_runs(2) show ?thesis by blast
qed

section \<open>Batch numbers\<close>

lemma regenerate_cases:
  "snd (regenerate_qr_code ev d pk) = d \<or>
   (\<exists>name. pk < length (packages d) \<and>
      snd (regenerate_qr_code ev d pk) =
        d\<lparr>packages := (packages d)[pk := (packages d ! pk)\<lparr>qr_code := name\<rparr>]\<rparr>)"
proof (cases "get_row (packages d) pk")
  case None
  then show ?thesis by (simp add: regenerate_qr_code_def)
next
  case (Some p)
  obtain r d' where g: "generate_qr_code ev d pk p = (r, d')" by fastforce
  from generate_qr_code_cases [OF g] Some g show ?thesis
    by (auto simp: regenerate_qr_code_def)
qed









lemma batches_ok_empty: "packages d = [] \<Longrightarrow> batches_ok d"
  by (simp add: batches_ok_def)



section \<open>Sign of the weight\<close>



lemma regenerate_products: "products (snd (regenerate_qr_code ev d pk)) = products d"
  using regenerate_cases [of ev d pk] by auto






section \<open>The frame of QR generation\<close>

lemma save_with_qr:
  assumes "qr_code p \<noteq> []"
  shows "ProductPackage_save ev d pk p =
     (case Model_save d pk (fill_missing ev p) of
        (Inl e, d') \<Rightarrow> (Inl e, d')
      | (Inr i, d') \<Rightarrow> (Inr (i, fill_missing ev p), d'))"
proof -
  have "qr_code (fill_missing ev p) = qr_code p"
    by (auto simp: fill_missing_def Let_def split: option.splits)
  with assms show ?thesis
    by (simp add: ProductPackage_save_fill split: prod.splits sum.splits)
qed

lemma fill_missing_env:
  "fill_missing (ev\<lparr>make_image := m, storage_save := st\<rparr>) p = fill_missing ev p"
  by (auto simp: fill_missing_def Let_def split: option.splits)

lemma fill_missing_qr: "qr_code (fill_missing ev p) = qr_code p"
  by (auto simp: fill_missing_def Let_def split: option.splits)

text \<open>
  C9. Saving a package that has a QR file does not generate one: the outcome of
  \<open>save\<close> is the same whatever the QR library and the storage would do, and the saved
  object and its row keep the QR file they had. A call of \<open>generate_qr_code\<close> either
  leaves the database as it was or writes the \<open>qr_code\<close> column of the package's own
  row and nothing else, the object changing in that field only; after the admin's
  regeneration the products (the inventory) are as before and so is every field of
  every package row other than \<open>qr_code\<close>, the batch number among them.
\<close>

theorem qr_regeneration_frame:
  "(qr_code p \<noteq> [] \<longrightarrow>
      ProductPackage_save (ev\<lparr>make_image := m, storage_save := st\<rparr>) d pk p =
        ProductPackage_save ev d pk p \<and>
      (\<forall>i pkg d'. ProductPackage_save ev d pk p = (Inr (i, pkg), d') \<longrightarrow>
         qr_code pkg = qr_code p \<and> map_option qr_code (get_row (packages d') i) = Some (qr_code p))) \<and>
   (snd (generate_qr_code ev d i0 p0) = d \<or>
    (\<exists>name. i0 < length (packages d) \<and>
       fst (generate_qr_code ev d i0 p0) = Inr (i0, p0\<lparr>qr_code := name\<rparr>) \<and>
       snd (generate_qr_code ev d i0 p0) =
         d\<lparr>packages := (packages d)[i0 := (packages d ! i0)\<lparr>qr_code := name\<rparr>]\<rparr>)) \<and>
   products (snd (regenerate_qr_code ev d i0)) = products d \<and>
   map (\<lambda>x. x\<lparr>qr_code := []\<rparr>) (packages (snd (regenerate_qr_code ev d i0))) =
     map (\<lambda>x. x\<lparr>qr_code := []\<rparr>) (packages d)"
proof (intro conjI impI allI)
  assume q: "qr_code p \<noteq> []"
  show "ProductPackage_save (ev\<lparr>make_image := m, storage_save := st\<rparr>) d pk p =
        ProductPackage_save ev d pk p"
    unfolding save_with_qr [OF q] fill_missing_env by (rule refl)
next
  fix i pkg d'
  assume q: "qr_code p \<noteq> []" and s: "ProductPackage_save ev d pk p = (Inr (i, pkg), d')"
  from s have m: "Model_save d pk (fill_missing ev p) = (Inr i, d')" and pkg: "pkg = fill_missing ev p"
    by (auto simp: save_with_qr [OF q] split: prod.splits sum.splits)
  from pkg show "qr_code pkg = qr_code p" by (simp add: fill_missing_qr)
  from m show "map_option qr_code (get_row (packages d') i) = Some (qr_code p)"
    by (auto simp: Model_save_def get_row_def fill_missing_qr split: option.splits if_splits)
next
  obtain r d' where g: "generate_qr_code ev d i0 p0 = (r, d')" by fastforce
  from generate_qr_code_cases [OF g] g
  show "snd (generate_qr_code ev d i0 p0) = d \<or>
    (\<exists>name. i0 < length (packages d) \<and>
       fst (generate_qr_code ev d i0 p0) = Inr (i0, p0\<lparr>qr_code := name\<rparr>) \<and>
       snd (generate_qr_code ev d i0 p0) =
         d\<lparr>packages := (packages d)[i0 := (packages d ! i0)\<lparr>qr_code := name\<rparr>]\<rparr>)"
    by auto
next
  show "products (snd (regenerate_qr_code ev d i0)) = products d"
    by (rule regenerate_products)
next
  from regenerate_cases [of ev d i0]
  show "map (\<lambda>x. x\<lparr>qr_code := []\<rparr>) (packages (snd (regenerate_qr_code ev d i0))) =
     map (\<lambda>x. x\<lparr>qr_code := []\<rparr>) (packages d)"
  proof (elim disjE exE conjE)
    assume "snd (regenerate_qr_code ev d i0) = d"
    then show ?thesis by simp
  next
    fix name
    assume lt: "i0 < length (packages d)"
      and eq: "snd (regenerate_qr_code ev d i0) =
        d\<lparr>packages := (packages d)[i0 := (packages d ! i0)\<lparr>qr_code := name\<rparr>]\<rparr>"
    show ?thesis unfolding eq using lt
      by (intro nth_equalityI) (auto simp: nth_list_update)
  qed
qed

lemma resave_sample:
  "ProductPackage_save env0 (db0\<lparr>packages := [package0]\<rparr>) (Some 0) package0 =
     (Inr (0, package0), db0\<lparr>packages := [package0]\<rparr>)"
  by code_simp

lemma regenerate_sample:
  "map qr_code (packages (snd (regenerate_qr_code
       (env0\<lparr>storage_save := (\<lambda>name content. Some (name @ ''_2''))\<rparr>)
       (db0\<lparr>packages := [package0]\<rparr>) 0))) =
     [''qrcodes/BATCH-0000000000_qr_code_BATCH-0000000000.png_2'']"
  by code_simp

theorem qr_regeneration_frame_witness:
  "ProductPackage_save (env0\<lparr>make_image := (\<lambda>data. None), storage_save := (\<lambda>name content. None)\<rparr>)
       (db0\<lparr>packages := [package0]\<rparr>) (Some 0) package0 =
     (Inr (0, package0), db0\<lparr>packages := [package0]\<rparr>) \<and>
   products (snd (regenerate_qr_code
       (env0\<lparr>storage_save := (\<lambda>name content. Some (name @ ''_2''))\<rparr>)
       (db0\<lparr>packages := [package0]\<rparr>) 0)) = [product0] \<and>
   map (\<lambda>x. x\<lparr>qr_code := []\<rparr>) (packages (snd (regenerate_qr_code
       (env0\<lparr>storage_save := (\<lambda>name content. Some (name @ ''_2''))\<rparr>)
       (db0\<lparr>packages := [package0]\<rparr>) 0))) = [package0\<lparr>qr_code := []\<rparr>] \<and>
   map qr_code (packages (snd (regenerate_qr_code
       (env0\<lparr>storage_save := (\<lambda>name content. Some (name @ ''_2''))\<rparr>)
       (db0\<lparr>packages := [package0]\<rparr>) 0))) =
     [''qrcodes/BATCH-0000000000_qr_code_BATCH-0000000000.png_2'']"
proof -
  let ?d = "db0\<lparr>packages := [package0]\<rparr>"
  let ?ev = "env0\<lparr>storage_save := (\<lambda>name content. Some (name @ ''_2''))\<rparr>"
  have q: "qr_code package0 \<noteq> []" by (simp add: package0_def)
  have d: "products ?d = [product0]" "packages ?d = [package0]"
    by (simp_all add: db0_def)
  note t1 = qr_regeneration_frame [where p = package0 and ev = env0 and d = ?d
      and pk = "Some 0" and m = "\<lambda>data. None" and st = "\<lambda>name content. None"]
  note t2 = qr_regeneration_frame [where ev = ?ev and d = ?d and ?i0.0 = 0]
  from t1 [THEN conjunct1, rule_format, OF q, THEN conjunct1] resave_sample
  have 1: "ProductPackage_save
       (env0\<lparr>make_image := (\<lambda>data. None), storage_save := (\<lambda>name content. None)\<rparr>)
       ?d (Some 0) package0 = (Inr (0, package0), ?d)"
    by (rule trans)
  from t2 [THEN conjunct2, THEN conjunct2, THEN conjunct1]
  have 2: "products (snd (regenerate_qr_code ?ev ?d 0)) = [product0]"
    by (simp only: d)
  from t2 [THEN conjunct2, THEN conjunct2, THEN conjunct2]
  have 3: "map (\<lambda>x. x\<lparr>qr_code := []\<rparr>) (packages (snd (regenerate_qr_code ?ev ?d 0))) =
      [package0\<lparr>qr_code := []\<rparr>]"
    by (simp only: d list.map)
  from 1 2 3 regenerate_sample show ?thesis by blast
qed

end
